theory Spec2Isabelle
  imports Complex_Main
begin

section \<open>JavaScript values\<close>

text \<open>
  The handlers of \<^verbatim>\<open>src/routes/auth.js\<close> receive parsed JSON and test it with the
  language's own notions of truth and absence, so the values are modelled as the
  language has them. A number is only ever tested for truth and passed on.
\<close>

datatype jsnum = NaN | PosInfinity | NegInfinity | Finite rat

datatype jsval =
    JUndefined
  | JNull
  | JBool bool
  | JNum jsnum
  | JStr string
  | JArr "jsval list"
  | JObj "(string \<times> jsval) list"
  | JNative string
    \<comment> \<open>a built-in function of the runtime, named by the text it converts to\<close>

text \<open>
  The own enumerable members of an object, in the order \<^verbatim>\<open>Object.entries\<close> lists
  them. A real object has each key once.

  \<^verbatim>\<open>req.body\<close> is such an object when a body parser in front of the router has
  parsed one, and undefined otherwise; nothing in this file mounts a parser. The
  handlers take it as a \<open>props option\<close>, \<open>None\<close> for undefined. Destructuring
  undefined, and passing it to \<^verbatim>\<open>Object.entries\<close>, throws a TypeError.
\<close>

type_synonym props = "(string \<times> jsval) list"

text \<open>What \<^verbatim>\<open>!v\<close> negates: the falsy values are undefined, null, false, 0, NaN and the
  empty string.\<close>

fun truthy :: "jsval \<Rightarrow> bool" where
  "truthy JUndefined = False"
| "truthy JNull = False"
| "truthy (JBool b) = b"
| "truthy (JNum n) = (n \<noteq> NaN \<and> n \<noteq> Finite 0)"
| "truthy (JStr s) = (s \<noteq> [])"
| "truthy (JArr xs) = True"
| "truthy (JObj kvs) = True"
| "truthy (JNative t) = True"

fun nullish :: "jsval \<Rightarrow> bool" where
  "nullish JUndefined = True"
| "nullish JNull = True"
| "nullish v = False"

text \<open>
  \<^verbatim>\<open>obj.name\<close> on the own members of an object, for a name that no built-in
  prototype defines: the member, or undefined.
\<close>

definition own_prop :: "props \<Rightarrow> string \<Rightarrow> jsval" where
  "own_prop kvs k = (case map_of kvs k of None \<Rightarrow> JUndefined | Some v \<Rightarrow> v)"

text \<open>
  \<^verbatim>\<open>v.name\<close> on a value that is neither null nor undefined, for the names this
  program reads from upstream data (\<^verbatim>\<open>id\<close>, \<^verbatim>\<open>sub\<close>, \<^verbatim>\<open>access_token\<close>,
  \<^verbatim>\<open>id_token\<close>, \<^verbatim>\<open>expires_in\<close>, \<^verbatim>\<open>errorCauses\<close>, \<^verbatim>\<open>errorSummary\<close>). None of
  them is a member of a built-in prototype, except \<^verbatim>\<open>sub\<close>, which every string
  inherits from \<^verbatim>\<open>String.prototype\<close>.
\<close>

fun member :: "jsval \<Rightarrow> string \<Rightarrow> jsval" where
  "member (JObj kvs) k = own_prop kvs k"
| "member (JStr s) k =
     (if k = ''sub'' then JNative ''function sub() { [native code] }'' else JUndefined)"
| "member v k = JUndefined"

text \<open>
  Whether converting a value to a string completes (a template literal, a
  \<^verbatim>\<open>URLSearchParams\<close> entry). An object converts through its \<^verbatim>\<open>toString\<close> member;
  a member parsed from JSON is never callable, so an object with an own
  \<^verbatim>\<open>toString\<close> member makes the conversion throw a TypeError. An array joins its
  elements, taking null and undefined as the empty string.
\<close>

fun stringifies :: "jsval \<Rightarrow> bool" where
  "stringifies (JObj kvs) = (map_of kvs ''toString'' = None)"
| "stringifies (JArr xs) = list_all (\<lambda>x. nullish x \<or> stringifies x) xs"
| "stringifies v = True"

text \<open>
  \<^verbatim>\<open>obj[k] = v\<close> for a key that is not an array index: an existing member keeps
  its place, a new one goes last.
\<close>

fun set_prop :: "props \<Rightarrow> string \<Rightarrow> jsval \<Rightarrow> props" where
  "set_prop [] k v = [(k, v)]"
| "set_prop ((k', v') # ps) k v =
     (if k' = k then (k, v) # ps else (k', v') # set_prop ps k v)"

section \<open>The field map of Update Profile\<close>

text \<open>The object literal \<^verbatim>\<open>allowedFields\<close>, lines 220 to 251.\<close>

definition allowedFields :: "(string \<times> string) list" where
  "allowedFields =
    [(''firstName'', ''firstName''),
     (''lastName'', ''lastName''),
     (''middleName'', ''middleName''),
     (''honorificPrefix'', ''honorificPrefix''),
     (''honorificSuffix'', ''honorificSuffix''),
     (''email'', ''email''),
     (''title'', ''title''),
     (''displayName'', ''displayName''),
     (''nickName'', ''nickName''),
     (''profileUrl'', ''profileUrl''),
     (''secondEmail'', ''secondEmail''),
     (''mobilePhone'', ''mobilePhone''),
     (''primaryPhone'', ''primaryPhone''),
     (''streetAddress'', ''streetAddress''),
     (''city'', ''city''),
     (''state'', ''state''),
     (''zipCode'', ''zipCode''),
     (''countryCode'', ''countryCode''),
     (''postalAddress'', ''postalAddress''),
     (''preferredLanguage'', ''preferredLanguage''),
     (''locale'', ''locale''),
     (''timezone'', ''timezone''),
     (''userType'', ''userType''),
     (''employeeNumber'', ''employeeNumber''),
     (''costCenter'', ''costCenter''),
     (''organization'', ''organization''),
     (''division'', ''division''),
     (''department'', ''department''),
     (''managerId'', ''managerId''),
     (''manager'', ''manager'')]"

text \<open>
  \<^verbatim>\<open>allowedFields\<close> is an ordinary object, so \<^verbatim>\<open>allowedFields[key]\<close> finds, besides
  the thirty own members, what every object inherits from \<^verbatim>\<open>Object.prototype\<close>.
  The table gives each inherited name the text its value converts to when it is
  used as a property key: the source text of a built-in function, and for
  \<^verbatim>\<open>__proto__\<close> the text of the prototype object itself.
\<close>

definition object_prototype :: "(string \<times> string) list" where
  "object_prototype =
    [(''constructor'', ''function Object() { [native code] }''),
     (''__defineGetter__'', ''function __defineGetter__() { [native code] }''),
     (''__defineSetter__'', ''function __defineSetter__() { [native code] }''),
     (''hasOwnProperty'', ''function hasOwnProperty() { [native code] }''),
     (''__lookupGetter__'', ''function __lookupGetter__() { [native code] }''),
     (''__lookupSetter__'', ''function __lookupSetter__() { [native code] }''),
     (''isPrototypeOf'', ''function isPrototypeOf() { [native code] }''),
     (''propertyIsEnumerable'', ''function propertyIsEnumerable() { [native code] }''),
     (''toString'', ''function toString() { [native code] }''),
     (''valueOf'', ''function valueOf() { [native code] }''),
     (''__proto__'', ''[object Object]''),
     (''toLocaleString'', ''function toLocaleString() { [native code] }'')]"

text \<open>
  The property key that \<^verbatim>\<open>allowedFields[key]\<close> stands for, and \<open>None\<close> where the
  lookup gives undefined. Every value found is truthy: the own members are
  non-empty strings, the inherited ones are functions or an object.
\<close>

definition allowedFields_key :: "string \<Rightarrow> string option" where
  "allowedFields_key key =
     (case map_of allowedFields key of
        Some field \<Rightarrow> Some field
      | None \<Rightarrow> map_of object_prototype key)"

text \<open>One round of the loop of lines 254 to 258.\<close>

definition fill_field :: "props \<Rightarrow> string \<times> jsval \<Rightarrow> props" where
  "fill_field profile entry =
     (case allowedFields_key (fst entry) of
        Some field \<Rightarrow>
          if snd entry \<noteq> JUndefined then set_prop profile field (snd entry)
          else profile
      | None \<Rightarrow> profile)"

text \<open>The loop, from the empty \<^verbatim>\<open>profileUpdate.profile\<close>.\<close>

definition map_fields :: "props \<Rightarrow> props" where
  "map_fields body = foldl fill_field [] body"

section \<open>The upstream provider and the caller's response\<close>

text \<open>
  The two values of the process environment that go into a request body. A variable
  that is not set reads as undefined. The provider's base address and the API token
  are the same in every request and are left out.
\<close>

record config =
  CLIENT_ID :: "string option"
  CLIENT_SECRET :: "string option"

definition env :: "string option \<Rightarrow> jsval" where
  "env v = (case v of None \<Rightarrow> JUndefined | Some s \<Rightarrow> JStr s)"

text \<open>
  The six requests the handlers send with \<^verbatim>\<open>axios\<close>. A value that the source
  interpolates into the address or encodes as a form entry is kept as the value; the
  request carries its string conversion.
  \<^item> \<open>CreateUser a u\<close>: POST \<^verbatim>\<open>/api/v1/users?activate=a\<close> with the JSON body \<open>u\<close>;
  \<^item> \<open>TokenExchange f\<close>: POST \<^verbatim>\<open>/oauth2/v1/token\<close> with the form \<open>f\<close>;
  \<^item> \<open>UserInfo t\<close>: GET \<^verbatim>\<open>/oauth2/v1/userinfo\<close> with \<^verbatim>\<open>Authorization: Bearer t\<close>;
  \<^item> \<open>UpdateUser i u\<close>: POST \<^verbatim>\<open>/api/v1/users/i\<close> with the JSON body \<open>u\<close>;
  \<^item> \<open>ResetPassword e s\<close>: POST
    \<^verbatim>\<open>/api/v1/users/e/lifecycle/reset_password?sendEmail=s\<close> with the body \<^verbatim>\<open>{}\<close>;
  \<^item> \<open>RevokeToken f\<close>: POST \<^verbatim>\<open>/oauth2/v1/revoke\<close> with the form \<open>f\<close>.
\<close>

datatype upstream_call =
    CreateUser bool jsval
  | TokenExchange props
  | UserInfo jsval
  | UpdateUser jsval jsval
  | ResetPassword jsval bool
  | RevokeToken props

text \<open>
  What awaiting a request gives: the promise resolves with a response whose
  \<^verbatim>\<open>data\<close> is the parsed body, or rejects with an error whose \<^verbatim>\<open>response\<close> is
  absent (no answer came) or carries the \<^verbatim>\<open>data\<close> of the error body.
\<close>

datatype outcome = Resolved jsval | Rejected "jsval option"

type_synonym upstream = "upstream_call \<Rightarrow> outcome"

text \<open>What a \<^verbatim>\<open>catch\<close> clause can receive.\<close>

datatype exn = TypeError | AxiosError "jsval option"

text \<open>\<^verbatim>\<open>res.status(s).json(b)\<close>.\<close>

record response =
  status :: nat
  json :: props

definition reply :: "nat \<Rightarrow> props \<Rightarrow> response" where
  "reply s b = \<lparr>status = s, json = b\<rparr>"

definition failure :: "nat \<Rightarrow> string \<Rightarrow> response" where
  "failure s m = reply s [(''success'', JBool False), (''message'', JStr m)]"

definition success :: "nat \<Rightarrow> string \<Rightarrow> response" where
  "success s m = reply s [(''success'', JBool True), (''message'', JStr m)]"

text \<open>\<^verbatim>\<open>error.response?.data\<close>; a TypeError has no \<^verbatim>\<open>response\<close>.\<close>

fun error_data :: "exn \<Rightarrow> jsval" where
  "error_data TypeError = JUndefined"
| "error_data (AxiosError None) = JUndefined"
| "error_data (AxiosError (Some d)) = d"

text \<open>\<^verbatim>\<open>v?.name\<close>.\<close>

definition opt_member :: "jsval \<Rightarrow> string \<Rightarrow> jsval" where
  "opt_member v k = (if nullish v then JUndefined else member v k)"

text \<open>
  The \<^verbatim>\<open>catch\<close> clause shared by Signup (lines 65 to 81) and Update Profile (lines
  286 to 302), which differ in the generic message only. The calls to
  \<^verbatim>\<open>console.error\<close> write to the log of the process and not to the caller; they are
  left out here and in the other handlers.
\<close>

definition okta_catch :: "string \<Rightarrow> exn \<Rightarrow> response" where
  "okta_catch generic error =
     (if truthy (opt_member (error_data error) ''errorCauses'')
      then reply 400
        [(''success'', JBool False),
         (''message'', member (error_data error) ''errorSummary''),
         (''errors'', member (error_data error) ''errorCauses'')]
      else failure 500 generic)"

text \<open>A handler is its \<^verbatim>\<open>try\<close> block, and its \<^verbatim>\<open>catch\<close> clause on what the block
  throws. The second component lists the upstream requests sent, in order.\<close>

definition try_catch ::
  "(exn + response) \<times> upstream_call list \<Rightarrow> (exn \<Rightarrow> response)
     \<Rightarrow> response \<times> upstream_call list" where
  "try_catch block handler =
     (case fst block of Inr r \<Rightarrow> (r, snd block) | Inl e \<Rightarrow> (handler e, snd block))"

section \<open>Signup, lines 26 to 82\<close>

definition newUser :: "jsval \<Rightarrow> jsval \<Rightarrow> jsval \<Rightarrow> jsval \<Rightarrow> jsval" where
  "newUser firstName lastName email password =
     JObj [(''profile'', JObj [(''firstName'', firstName), (''lastName'', lastName),
                               (''email'', email), (''login'', email)]),
           (''credentials'', JObj [(''password'', JObj [(''value'', password)])])]"

definition signup_try ::
  "upstream \<Rightarrow> props option \<Rightarrow> (exn + response) \<times> upstream_call list" where
  "signup_try up req_body =
     (case req_body of
        None \<Rightarrow> (Inl TypeError, [])
      | Some body \<Rightarrow>
     (let firstName = own_prop body ''firstName'';
          lastName = own_prop body ''lastName'';
          email = own_prop body ''email'';
          password = own_prop body ''password''
      in if \<not> truthy firstName \<or> \<not> truthy lastName \<or> \<not> truthy email \<or> \<not> truthy password
         then (Inr (failure 400 ''Missing required fields''), [])
         else let call = CreateUser True (newUser firstName lastName email password)
              in (case up call of
                    Rejected r \<Rightarrow> (Inl (AxiosError r), [call])
                  | Resolved d \<Rightarrow>
                      if nullish d then (Inl TypeError, [call])
                      else (Inr (reply 201
                              [(''success'', JBool True),
                               (''message'', JStr ''User created successfully''),
                               (''userId'', member d ''id'')]), [call]))))"

definition signup :: "upstream \<Rightarrow> props option \<Rightarrow> response \<times> upstream_call list" where
  "signup up req_body =
     try_catch (signup_try up req_body) (okta_catch ''Error creating user account'')"

section \<open>Login, lines 85 to 136\<close>

definition form_stringifies :: "props \<Rightarrow> bool" where
  "form_stringifies form = list_all (\<lambda>entry. stringifies (snd entry)) form"

definition authData :: "config \<Rightarrow> jsval \<Rightarrow> jsval \<Rightarrow> props" where
  "authData cfg username password =
     [(''username'', username),
      (''password'', password),
      (''grant_type'', JStr ''password''),
      (''client_id'', env (CLIENT_ID cfg)),
      (''client_secret'', env (CLIENT_SECRET cfg)),
      (''scope'', JStr ''openid profile email'')]"

definition login_try ::
  "config \<Rightarrow> upstream \<Rightarrow> props option \<Rightarrow> (exn + response) \<times> upstream_call list" where
  "login_try cfg up req_body =
     (case req_body of
        None \<Rightarrow> (Inl TypeError, [])
      | Some body \<Rightarrow>
     (let username = own_prop body ''username'';
          password = own_prop body ''password''
      in if \<not> truthy username \<or> \<not> truthy password
         then (Inr (failure 400 ''Username and password are required''), [])
         else let form = authData cfg username password
              in if \<not> form_stringifies form then (Inl TypeError, [])
                 else (case up (TokenExchange form) of
                         Rejected r \<Rightarrow> (Inl (AxiosError r), [TokenExchange form])
                       | Resolved d \<Rightarrow>
                           if nullish d then (Inl TypeError, [TokenExchange form])
                           else (Inr (reply 200
                                   [(''success'', JBool True),
                                    (''message'', JStr ''Login successful''),
                                    (''token'', member d ''access_token''),
                                    (''id_token'', member d ''id_token''),
                                    (''expires_in'', member d ''expires_in'')]),
                                 [TokenExchange form]))))"

definition login ::
  "config \<Rightarrow> upstream \<Rightarrow> props option \<Rightarrow> response \<times> upstream_call list" where
  "login cfg up req_body =
     try_catch (login_try cfg up req_body) (\<lambda>error. failure 401 ''Authentication failed'')"

section \<open>The bearer token of the two profile operations\<close>

text \<open>\<^verbatim>\<open>s.split(c)\<close> for a separator of one character.\<close>

fun split_on :: "char \<Rightarrow> string \<Rightarrow> string list" where
  "split_on c [] = [[]]"
| "split_on c (x # xs) =
     (if x = c then [] # split_on c xs
      else (case split_on c xs of
              [] \<Rightarrow> [[x]]
            | w # ws \<Rightarrow> (x # w) # ws))"

definition startsWith :: "string \<Rightarrow> string \<Rightarrow> bool" where
  "startsWith s p = (take (length p) s = p)"

text \<open>
  Lines 142 to 151 and 181 to 190. \<^verbatim>\<open>req.headers.authorization\<close> is a string, or
  undefined when the header is missing. \<open>None\<close> is the early 401; otherwise the
  result is \<^verbatim>\<open>authHeader.split(' ')[1]\<close>.
\<close>

definition bearer_token :: "string option \<Rightarrow> jsval option" where
  "bearer_token authHeader =
     (case authHeader of
        None \<Rightarrow> None
      | Some h \<Rightarrow>
          if h = [] \<or> \<not> startsWith h ''Bearer '' then None
          else (case split_on CHR '' '' h of
                  a # t # rest \<Rightarrow> Some (JStr t)
                | _ \<Rightarrow> Some JUndefined))"

section \<open>Get Profile, lines 139 to 175\<close>

definition getProfile_try ::
  "upstream \<Rightarrow> string option \<Rightarrow> (exn + response) \<times> upstream_call list" where
  "getProfile_try up authHeader =
     (case bearer_token authHeader of
        None \<Rightarrow> (Inr (failure 401 ''No token provided''), [])
      | Some token \<Rightarrow>
          (case up (UserInfo token) of
             Rejected r \<Rightarrow> (Inl (AxiosError r), [UserInfo token])
           | Resolved d \<Rightarrow>
               (Inr (reply 200 [(''success'', JBool True), (''profile'', d)]),
                [UserInfo token])))"

definition getProfile :: "upstream \<Rightarrow> string option \<Rightarrow> response \<times> upstream_call list" where
  "getProfile up authHeader =
     try_catch (getProfile_try up authHeader)
       (\<lambda>error. failure 401 ''Failed to fetch user profile'')"

section \<open>Update Profile, lines 178 to 303\<close>

text \<open>Lines 268 to 273: the special case for \<^verbatim>\<open>login\<close>.\<close>

definition with_login :: "props \<Rightarrow> props \<Rightarrow> props" where
  "with_login body profile =
     (if truthy (own_prop body ''login'')
      then set_prop profile ''login'' (own_prop body ''login'')
      else profile)"

definition profileUpdate :: "props \<Rightarrow> jsval" where
  "profileUpdate body = JObj [(''profile'', JObj (with_login body (map_fields body)))]"

definition updateProfile_try ::
  "upstream \<Rightarrow> string option \<Rightarrow> props option
     \<Rightarrow> (exn + response) \<times> upstream_call list" where
  "updateProfile_try up authHeader req_body =
     (case bearer_token authHeader of
        None \<Rightarrow> (Inr (failure 401 ''No token provided''), [])
      | Some token \<Rightarrow>
          (case up (UserInfo token) of
             Rejected r \<Rightarrow> (Inr (failure 401 ''Invalid token''), [UserInfo token])
           | Resolved userInfo \<Rightarrow>
               if nullish userInfo then (Inl TypeError, [UserInfo token])
               else let userId = member userInfo ''sub''
                    in (case req_body of
                       None \<Rightarrow> (Inl TypeError, [UserInfo token])
                     | Some body \<Rightarrow>
                       if map_fields body = []
                       then (Inr (failure 400 ''No valid fields to update''), [UserInfo token])
                       else if \<not> stringifies userId then (Inl TypeError, [UserInfo token])
                       else (case up (UpdateUser userId (profileUpdate body)) of
                               Rejected r \<Rightarrow>
                                 (Inl (AxiosError r),
                                  [UserInfo token, UpdateUser userId (profileUpdate body)])
                             | Resolved d \<Rightarrow>
                                 (Inr (success 200 ''Profile updated successfully''),
                                  [UserInfo token, UpdateUser userId (profileUpdate body)])))))"

definition updateProfile ::
  "upstream \<Rightarrow> string option \<Rightarrow> props option \<Rightarrow> response \<times> upstream_call list" where
  "updateProfile up authHeader req_body =
     try_catch (updateProfile_try up authHeader req_body)
       (okta_catch ''Failed to update profile'')"

section \<open>Password Reset, lines 306 to 336\<close>

definition resetPassword_try ::
  "upstream \<Rightarrow> props option \<Rightarrow> (exn + response) \<times> upstream_call list" where
  "resetPassword_try up req_body =
     (case req_body of
        None \<Rightarrow> (Inl TypeError, [])
      | Some body \<Rightarrow>
     (let email = own_prop body ''email''
      in if \<not> truthy email then (Inr (failure 400 ''Email is required''), [])
         else if \<not> stringifies email then (Inl TypeError, [])
         else (case up (ResetPassword email True) of
                 Rejected r \<Rightarrow> (Inl (AxiosError r), [ResetPassword email True])
               | Resolved d \<Rightarrow>
                   (Inr (success 200 ''Password reset email sent''),
                    [ResetPassword email True]))))"

definition resetPassword ::
  "upstream \<Rightarrow> props option \<Rightarrow> response \<times> upstream_call list" where
  "resetPassword up req_body =
     try_catch (resetPassword_try up req_body)
       (\<lambda>error. failure 400 ''Failed to send password reset email'')"

section \<open>Logout, lines 339 to 380\<close>

definition revokeData :: "config \<Rightarrow> jsval \<Rightarrow> props" where
  "revokeData cfg token =
     [(''token'', token),
      (''client_id'', env (CLIENT_ID cfg)),
      (''client_secret'', env (CLIENT_SECRET cfg)),
      (''token_type_hint'', JStr ''access_token'')]"

definition logout_try ::
  "config \<Rightarrow> upstream \<Rightarrow> props option \<Rightarrow> (exn + response) \<times> upstream_call list" where
  "logout_try cfg up req_body =
     (case req_body of
        None \<Rightarrow> (Inl TypeError, [])
      | Some body \<Rightarrow>
     (let token = own_prop body ''token''
      in if \<not> truthy token then (Inr (failure 400 ''Token is required''), [])
         else let form = revokeData cfg token
              in if \<not> form_stringifies form then (Inl TypeError, [])
                 else (case up (RevokeToken form) of
                         Rejected r \<Rightarrow> (Inl (AxiosError r), [RevokeToken form])
                       | Resolved d \<Rightarrow>
                           (Inr (success 200 ''Logged out successfully''),
                            [RevokeToken form]))))"

definition logout ::
  "config \<Rightarrow> upstream \<Rightarrow> props option \<Rightarrow> response \<times> upstream_call list" where
  "logout cfg up req_body =
     try_catch (logout_try cfg up req_body) (\<lambda>error. failure 500 ''Failed to logout'')"

section \<open>Example configuration and upstream behaviours\<close>

text \<open>Concrete inputs at which the theorems below are instantiated: a provider that
  accepts every request, and one that rejects every request with an error body of the
  provider's usual shape.\<close>

definition sample_config :: config where
  "sample_config = \<lparr>CLIENT_ID = Some ''0oa1'', CLIENT_SECRET = Some ''s3cr3t''\<rparr>"

definition sample_upstream :: upstream where
  "sample_upstream call =
     (case call of
        UserInfo t \<Rightarrow> Resolved (JObj [(''sub'', JStr ''00u1'')])
      | CreateUser a u \<Rightarrow> Resolved (JObj [(''id'', JStr ''00u1'')])
      | _ \<Rightarrow> Resolved (JObj []))"

definition okta_error :: jsval where
  "okta_error =
     JObj [(''errorCode'', JStr ''E0000001''),
           (''errorSummary'', JStr ''Api validation failed: login''),
           (''errorCauses'', JArr [JObj [(''errorSummary'', JStr ''login: already exists'')]])]"

definition failing_upstream :: upstream where
  "failing_upstream call = Rejected (Some okta_error)"

section \<open>Facts about members and the field map\<close>

lemma snd_try_catch: "snd (try_catch block handler) = snd block"
  by (simp add: try_catch_def split: sum.splits)

lemma bearer_token_Some:
  "startsWith h ''Bearer '' \<Longrightarrow> \<exists>token. bearer_token (Some h) = Some token"
  by (auto simp: bearer_token_def startsWith_def split: list.splits)

lemma set_prop_keys: "set (map fst (set_prop ps k v)) = insert k (set (map fst ps))"
proof (induction ps)
  case Nil
  show ?case by simp
next
  case (Cons p ps)
  obtain k' v' where p: "p = (k', v')" by (cases p)
  show ?case
  proof (cases "k' = k")
    case True
    with p show ?thesis by simp
  next
    case False
    with p Cons.IH show ?thesis by (simp add: insert_commute)
  qed
qed

lemma map_of_set_prop_same: "map_of (set_prop ps k v) k = Some v"
  by (induction ps) auto

lemma set_prop_append: "k \<notin> set (map fst ps) \<Longrightarrow> set_prop ps k v = ps @ [(k, v)]"
  by (induction ps) auto

lemma own_prop_filter:
  "k \<noteq> key \<Longrightarrow> own_prop (filter (\<lambda>entry. fst entry \<noteq> key) body) k = own_prop body k"
  by (induction body) (auto simp: own_prop_def)

text \<open>What a lookup in \<^verbatim>\<open>allowedFields\<close> can give.\<close>

lemma allowedFields_key_cases:
  assumes "allowedFields_key key = Some field"
  shows "(key, field) \<in> set allowedFields \<or> (key, field) \<in> set object_prototype"
  using assms
  by (auto simp: allowedFields_key_def split: option.splits dest: map_of_SomeD)

lemma allowedFields_key_not_login: "allowedFields_key key \<noteq> Some ''login''"
proof
  assume "allowedFields_key key = Some ''login''"
  then have "(key, ''login'') \<in> set allowedFields \<or> (key, ''login'') \<in> set object_prototype"
    by (rule allowedFields_key_cases)
  then show False
    by (simp add: allowedFields_def object_prototype_def)
qed

lemma allowedFields_identity: "map_of allowedFields key = Some field \<Longrightarrow> field = key"
  by (drule map_of_SomeD) (auto simp: allowedFields_def)

lemma allowedFields_key_own:
  "map_of allowedFields key = Some field \<Longrightarrow> allowedFields_key key = Some key"
  using allowedFields_identity [of key field] by (simp add: allowedFields_key_def)

lemma allowedFields_key_absent:
  assumes "map_of allowedFields key = None" and "key \<notin> set (map fst object_prototype)"
  shows "allowedFields_key key = None"
proof -
  from assms(2) have "map_of object_prototype key = None"
    by (simp add: map_of_eq_None_iff)
  with assms(1) show ?thesis by (simp add: allowedFields_key_def)
qed

lemma allowedFields_key_None:
  "key \<notin> fst ` set allowedFields \<Longrightarrow> key \<notin> fst ` set object_prototype \<Longrightarrow>
     allowedFields_key key = None"
  by (rule allowedFields_key_absent) (simp_all add: map_of_eq_None_iff)

text \<open>The loop never writes a \<^verbatim>\<open>login\<close> member.\<close>

lemma fill_field_no_login:
  assumes "''login'' \<notin> set (map fst profile)"
  shows "''login'' \<notin> set (map fst (fill_field profile entry))"
proof (cases "allowedFields_key (fst entry)")
  case None
  with assms show ?thesis by (simp add: fill_field_def)
next
  case (Some field)
  then have "field \<noteq> ''login''"
    using allowedFields_key_not_login [of "fst entry"] by auto
  with assms Some show ?thesis
    by (simp add: fill_field_def set_prop_keys del: set_map)
qed

lemma foldl_fill_field_no_login:
  "''login'' \<notin> set (map fst acc) \<Longrightarrow>
     ''login'' \<notin> set (map fst (foldl fill_field acc body))"
proof (induction body arbitrary: acc)
  case Nil
  then show ?case by simp
next
  case (Cons entry body)
  from Cons.prems have "''login'' \<notin> set (map fst (fill_field acc entry))"
    by (rule fill_field_no_login)
  then show ?case using Cons.IH by simp
qed

lemma map_fields_no_login: "map_of (map_fields body) ''login'' = None"
proof -
  have "''login'' \<notin> set (map fst (foldl fill_field [] body))"
    by (rule foldl_fill_field_no_login) simp
  then show ?thesis
    by (simp add: map_fields_def map_of_eq_None_iff)
qed

text \<open>An entry whose key the lookup does not find leaves the loop's result as it is.\<close>

lemma fill_field_unknown:
  "allowedFields_key (fst entry) = None \<Longrightarrow> fill_field profile entry = profile"
  by (simp add: fill_field_def)

lemma foldl_fill_field_filter:
  "allowedFields_key key = None \<Longrightarrow>
     foldl fill_field acc (filter (\<lambda>entry. fst entry \<noteq> key) body) = foldl fill_field acc body"
  by (induction body arbitrary: acc) (auto simp: fill_field_unknown)

lemma map_fields_filter:
  "allowedFields_key key = None \<Longrightarrow>
     map_fields (filter (\<lambda>entry. fst entry \<noteq> key) body) = map_fields body"
  by (simp add: map_fields_def foldl_fill_field_filter)

text \<open>
  On a body that is a real object (each key once) and has no key that
  \<^verbatim>\<open>Object.prototype\<close> defines, the loop keeps the entries of the thirty own keys whose
  value is not undefined, in their order, and running it on its own result changes
  nothing.
\<close>

lemma foldl_fill_field_known:
  assumes "distinct (map fst body)"
    and "set (map fst body) \<inter> set (map fst acc) = {}"
    and "set (map fst body) \<inter> set (map fst object_prototype) = {}"
  shows "foldl fill_field acc body =
           acc @ filter (\<lambda>entry. map_of allowedFields (fst entry) \<noteq> None \<and>
                                  snd entry \<noteq> JUndefined) body"
  using assms
proof (induction body arbitrary: acc)
  case Nil
  show ?case by simp
next
  case (Cons entry body)
  let ?keep = "\<lambda>entry. map_of allowedFields (fst entry) \<noteq> None \<and> snd entry \<noteq> JUndefined"
  have step: "fill_field acc entry = acc @ filter ?keep [entry]"
  proof (cases "map_of allowedFields (fst entry)")
    case None
    moreover from Cons.prems(3) have "fst entry \<notin> set (map fst object_prototype)" by auto
    ultimately have "allowedFields_key (fst entry) = None"
      by (rule allowedFields_key_absent)
    with None show ?thesis by (simp add: fill_field_def)
  next
    case (Some field)
    then have k: "allowedFields_key (fst entry) = Some (fst entry)"
      by (rule allowedFields_key_own)
    from Cons.prems(2) have "fst entry \<notin> set (map fst acc)" by auto
    then have "set_prop acc (fst entry) (snd entry) = acc @ [(fst entry, snd entry)]"
      by (rule set_prop_append)
    with Some k show ?thesis by (simp add: fill_field_def)
  qed
  have keys: "set (map fst (fill_field acc entry)) \<subseteq> insert (fst entry) (set (map fst acc))"
    unfolding step by auto
  from Cons.prems(1) have d: "distinct (map fst body)" and n: "fst entry \<notin> set (map fst body)"
    by simp_all
  from Cons.prems(2) have "set (map fst body) \<inter> set (map fst acc) = {}"
    by simp
  with n keys have "set (map fst body) \<inter> set (map fst (fill_field acc entry)) = {}"
    by blast
  moreover from Cons.prems(3) have "set (map fst body) \<inter> set (map fst object_prototype) = {}"
    by auto
  ultimately have "foldl fill_field (fill_field acc entry) body =
      fill_field acc entry @ filter ?keep body"
    using d by (rule Cons.IH [rotated])
  then show ?case by (simp add: step)
qed

lemma map_fields_filter_known:
  assumes "distinct (map fst body)"
    and "set (map fst body) \<inter> set (map fst object_prototype) = {}"
  shows "map_fields body =
           filter (\<lambda>entry. map_of allowedFields (fst entry) \<noteq> None \<and>
                            snd entry \<noteq> JUndefined) body"
  using foldl_fill_field_known [of body "[]"] assms by (simp add: map_fields_def)

lemma map_fields_idempotent_known:
  assumes "distinct (map fst body)"
    and "set (map fst body) \<inter> set (map fst object_prototype) = {}"
  shows "map_fields (map_fields body) = map_fields body"
proof -
  let ?keep = "\<lambda>entry. map_of allowedFields (fst entry) \<noteq> None \<and> snd entry \<noteq> JUndefined"
  have m: "map_fields body = filter ?keep body"
    using assms by (rule map_fields_filter_known)
  have "distinct (map fst (filter ?keep body))"
    using assms(1) by (rule distinct_map_filter)
  moreover have "set (map fst (filter ?keep body)) \<inter> set (map fst object_prototype) = {}"
    using assms(2) by auto
  ultimately have "map_fields (filter ?keep body) = filter ?keep (filter ?keep body)"
    by (rule map_fields_filter_known)
  with m show ?thesis by simp
qed

text \<open>Update Profile with an empty patch object, and with one recognised field.\<close>

lemma updateProfile_no_valid_fields:
  assumes "bearer_token authHeader = Some token"
    and "up (UserInfo token) = Resolved userInfo" and "\<not> nullish userInfo"
    and "map_fields body = []"
  shows "updateProfile up authHeader (Some body) =
           (failure 400 ''No valid fields to update'', [UserInfo token])"
  using assms by (simp add: updateProfile_def updateProfile_try_def try_catch_def)

lemma updateProfile_single_field:
  assumes "bearer_token authHeader = Some token"
    and "up (UserInfo token) = Resolved userInfo" and "\<not> nullish userInfo"
    and "stringifies (member userInfo ''sub'')"
    and "map_of allowedFields key = Some field" and "v \<noteq> JUndefined"
  shows "snd (updateProfile up authHeader (Some [(key, v)])) =
           [UserInfo token,
            UpdateUser (member userInfo ''sub'') (JObj [(''profile'', JObj [(key, v)])])]"
proof -
  from assms(5) have k: "allowedFields_key key = Some key"
    by (rule allowedFields_key_own)
  with assms(6) have m: "map_fields [(key, v)] = [(key, v)]"
    by (simp add: map_fields_def fill_field_def)
  from k have "key \<noteq> ''login''"
    using allowedFields_key_not_login [of key] by auto
  then have "profileUpdate [(key, v)] = JObj [(''profile'', JObj [(key, v)])]"
    by (simp add: profileUpdate_def with_login_def own_prop_def m)
  with assms(1-4) m show ?thesis
    by (simp add: updateProfile_def snd_try_catch updateProfile_try_def Let_def
        split: outcome.splits)
qed

lemmas field_map_defs =
  map_fields_def fill_field_def allowedFields_key_def allowedFields_def object_prototype_def

lemmas sample_defs =
  sample_config_def sample_upstream_def failing_upstream_def okta_error_def

section \<open>Login: what the caller sees when the provider rejects\<close>

text \<open>
  Claim C1. For a Login request whose body has a truthy (for a string: non-empty)
  username and password, when the token exchange is rejected, whatever the error the
  provider answers with, the handler replies 401 with the body exactly
  \<^verbatim>\<open>{success: false, message: 'Authentication failed'}\<close>. Nothing of the error is in
  the reply: under any other provider that rejects the request, with any other
  error, the reply is the same.
\<close>

theorem login_failure_uniform:
  assumes "truthy (own_prop body ''username'')"
    and "truthy (own_prop body ''password'')"
    and "up (TokenExchange (authData cfg (own_prop body ''username'')
                (own_prop body ''password''))) = Rejected r"
  shows "fst (login cfg up (Some body)) =
           \<lparr>status = 401,
            json = [(''success'', JBool False),
                    (''message'', JStr ''Authentication failed'')]\<rparr> \<and>
         (\<forall>up' r'. up' (TokenExchange (authData cfg (own_prop body ''username'')
                            (own_prop body ''password''))) = Rejected r' \<longrightarrow>
                    fst (login cfg up' (Some body)) = fst (login cfg up (Some body)))"
  using assms
  by (simp add: login_def login_try_def try_catch_def failure_def reply_def Let_def)

theorem login_failure_uniform_witness:
  "truthy (own_prop [(''username'', JStr ''ann''), (''password'', JStr ''wrong'')] ''username'') \<and>
   truthy (own_prop [(''username'', JStr ''ann''), (''password'', JStr ''wrong'')] ''password'') \<and>
   failing_upstream (TokenExchange (authData sample_config (JStr ''ann'') (JStr ''wrong'')))
     = Rejected (Some okta_error) \<and>
   fst (login sample_config failing_upstream
          (Some [(''username'', JStr ''ann''), (''password'', JStr ''wrong'')])) =
     \<lparr>status = 401,
      json = [(''success'', JBool False), (''message'', JStr ''Authentication failed'')]\<rparr>"
proof -
  let ?body = "[(''username'', JStr ''ann''), (''password'', JStr ''wrong'')]"
  have u: "truthy (own_prop ?body ''username'')" and p: "truthy (own_prop ?body ''password'')"
    by (simp_all add: own_prop_def)
  have r: "failing_upstream (TokenExchange (authData sample_config (own_prop ?body ''username'')
             (own_prop ?body ''password''))) = Rejected (Some okta_error)"
    by (simp add: failing_upstream_def)
  from login_failure_uniform
    [where body = ?body and up = failing_upstream and cfg = sample_config
       and r = "Some okta_error", OF u p r] u p r
  show ?thesis
    by (simp add: own_prop_def)
qed

section \<open>Update Profile: the order of the two upstream requests\<close>

text \<open>
  Claim C2. For an Update Profile request whose Authorization header starts with
  \<^verbatim>\<open>Bearer \<close>, whatever its body, the handler sends either the userinfo request
  alone or the userinfo request followed by one profile update, never anything else;
  and when the userinfo request is rejected, the update is not sent and the reply has
  status 401.
\<close>

theorem updateProfile_sequencing:
  assumes "authHeader = Some h" and "startsWith h ''Bearer ''"
  shows "\<exists>token. bearer_token authHeader = Some token \<and>
           (snd (updateProfile up authHeader req_body) = [UserInfo token] \<or>
            (\<exists>userId update. snd (updateProfile up authHeader req_body)
                = [UserInfo token, UpdateUser userId update])) \<and>
           ((\<exists>r. up (UserInfo token) = Rejected r) \<longrightarrow>
              snd (updateProfile up authHeader req_body) = [UserInfo token] \<and>
              status (fst (updateProfile up authHeader req_body)) = 401)"
proof -
  from assms obtain token where t: "bearer_token authHeader = Some token"
    using bearer_token_Some by blast
  show ?thesis
    using t
    by (auto simp: updateProfile_def updateProfile_try_def try_catch_def failure_def reply_def
        Let_def split: outcome.splits option.splits)
qed

theorem updateProfile_sequencing_witness:
  "startsWith ''Bearer abc'' ''Bearer '' \<and>
   bearer_token (Some ''Bearer abc'') = Some (JStr ''abc'') \<and>
   failing_upstream (UserInfo (JStr ''abc'')) = Rejected (Some okta_error) \<and>
   snd (updateProfile failing_upstream (Some ''Bearer abc'') (Some [(''firstName'', JStr ''Ann'')]))
     = [UserInfo (JStr ''abc'')] \<and>
   status (fst (updateProfile failing_upstream (Some ''Bearer abc'')
                  (Some [(''firstName'', JStr ''Ann'')]))) = 401"
proof -
  have s: "startsWith ''Bearer abc'' ''Bearer ''"
    by (simp add: startsWith_def)
  have b: "bearer_token (Some ''Bearer abc'') = Some (JStr ''abc'')"
    by (simp add: bearer_token_def startsWith_def)
  have f: "failing_upstream (UserInfo (JStr ''abc'')) = Rejected (Some okta_error)"
    by (simp add: failing_upstream_def)
  from updateProfile_sequencing
    [OF refl s, of failing_upstream "Some [(''firstName'', JStr ''Ann'')]"]
  have "snd (updateProfile failing_upstream (Some ''Bearer abc'') (Some [(''firstName'', JStr ''Ann'')]))
          = [UserInfo (JStr ''abc'')] \<and>
        status (fst (updateProfile failing_upstream (Some ''Bearer abc'')
                  (Some [(''firstName'', JStr ''Ann'')]))) = 401"
    using b f by auto
  with s b f show ?thesis by simp
qed

section \<open>Update Profile: the login member\<close>

text \<open>
  Claim C4, as stated: every body with a \<^verbatim>\<open>login\<close> field has that value copied into
  the patch object. It fails on a body whose \<^verbatim>\<open>login\<close> is the empty string: the
  update is sent, and its profile has no \<^verbatim>\<open>login\<close> member.
\<close>

theorem login_empty_counterexample:
  "snd (updateProfile sample_upstream (Some ''Bearer abc'')
          (Some [(''firstName'', JStr ''Ann''), (''login'', JStr [])])) =
     [UserInfo (JStr ''abc''),
      UpdateUser (JStr ''00u1'') (JObj [(''profile'', JObj [(''firstName'', JStr ''Ann'')])])]"
  by (simp add: updateProfile_def updateProfile_try_def try_catch_def bearer_token_def
      startsWith_def sample_upstream_def profileUpdate_def with_login_def own_prop_def
      success_def reply_def field_map_defs)

text \<open>
  Claim C4, amended. Whenever the handler sends the profile update, its body is
  \<^verbatim>\<open>{profile: p}\<close>, and \<open>p\<close> has the caller's \<^verbatim>\<open>login\<close> value as its
  \<^verbatim>\<open>login\<close> member if that value is truthy (whatever the field map holds), and no
  \<^verbatim>\<open>login\<close> member otherwise.
\<close>

theorem login_copied_when_truthy:
  assumes "UpdateUser userId update \<in> set (snd (updateProfile up authHeader (Some body)))"
  shows "\<exists>profile. update = JObj [(''profile'', JObj profile)] \<and>
           (truthy (own_prop body ''login'') \<longrightarrow>
              map_of profile ''login'' = Some (own_prop body ''login'')) \<and>
           (\<not> truthy (own_prop body ''login'') \<longrightarrow> map_of profile ''login'' = None)"
proof -
  from assms have "update = profileUpdate body"
    by (auto simp: updateProfile_def updateProfile_try_def try_catch_def Let_def
        split: option.splits outcome.splits if_splits)
  then show ?thesis
    by (simp add: profileUpdate_def with_login_def map_of_set_prop_same map_fields_no_login)
qed

theorem login_copied_when_truthy_witness:
  "UpdateUser (JStr ''00u1'')
     (JObj [(''profile'', JObj [(''firstName'', JStr ''Ann''), (''login'', JStr ''ann2'')])])
     \<in> set (snd (updateProfile sample_upstream (Some ''Bearer abc'')
                  (Some [(''firstName'', JStr ''Ann''), (''login'', JStr ''ann2'')]))) \<and>
   truthy (own_prop [(''firstName'', JStr ''Ann''), (''login'', JStr ''ann2'')] ''login'') \<and>
   map_of [(''firstName'', JStr ''Ann''), (''login'', JStr ''ann2'')] ''login''
     = Some (own_prop [(''firstName'', JStr ''Ann''), (''login'', JStr ''ann2'')] ''login'')"
proof -
  let ?body = "[(''firstName'', JStr ''Ann''), (''login'', JStr ''ann2'')]"
  have sent: "UpdateUser (JStr ''00u1'') (JObj [(''profile'', JObj ?body)])
      \<in> set (snd (updateProfile sample_upstream (Some ''Bearer abc'') (Some ?body)))"
    by (simp add: updateProfile_def updateProfile_try_def try_catch_def bearer_token_def
        startsWith_def sample_upstream_def profileUpdate_def with_login_def own_prop_def
        success_def reply_def field_map_defs)
  have t: "truthy (own_prop ?body ''login'')"
    by (simp add: own_prop_def)
  from login_copied_when_truthy [OF sent] t
  have "map_of ?body ''login'' = Some (own_prop ?body ''login'')"
    by auto
  with sent t show ?thesis by blast
qed

section \<open>Missing input\<close>

text \<open>
  When \<^verbatim>\<open>req.body\<close> is an object, each of the six operations answers a request that
  lacks a required input with 400 or 401 and sends nothing upstream: Signup, Login,
  Password Reset and Logout when a required body field is missing or falsy (the empty
  string among others) reply 400; Get Profile and Update Profile when the
  Authorization header is missing or does not start with \<^verbatim>\<open>Bearer \<close> reply 401.
\<close>

lemma missing_input_object_body:
  "((\<not> truthy (own_prop body ''firstName'') \<or> \<not> truthy (own_prop body ''lastName'') \<or>
     \<not> truthy (own_prop body ''email'') \<or> \<not> truthy (own_prop body ''password'')) \<longrightarrow>
      status (fst (signup up (Some body))) = 400 \<and> snd (signup up (Some body)) = []) \<and>
   ((\<not> truthy (own_prop body ''username'') \<or> \<not> truthy (own_prop body ''password'')) \<longrightarrow>
      status (fst (login cfg up (Some body))) = 400 \<and> snd (login cfg up (Some body)) = []) \<and>
   ((authHeader = None \<or> (\<exists>h. authHeader = Some h \<and> \<not> startsWith h ''Bearer '')) \<longrightarrow>
      status (fst (getProfile up authHeader)) = 401 \<and> snd (getProfile up authHeader) = []) \<and>
   ((authHeader = None \<or> (\<exists>h. authHeader = Some h \<and> \<not> startsWith h ''Bearer '')) \<longrightarrow>
      status (fst (updateProfile up authHeader (Some body))) = 401 \<and>
      snd (updateProfile up authHeader (Some body)) = []) \<and>
   (\<not> truthy (own_prop body ''email'') \<longrightarrow>
      status (fst (resetPassword up (Some body))) = 400 \<and> snd (resetPassword up (Some body)) = []) \<and>
   (\<not> truthy (own_prop body ''token'') \<longrightarrow>
      status (fst (logout cfg up (Some body))) = 400 \<and> snd (logout cfg up (Some body)) = [])"
proof -
  have hdr: "bearer_token authHeader = None"
    if "authHeader = None \<or> (\<exists>h. authHeader = Some h \<and> \<not> startsWith h ''Bearer '')"
    using that by (auto simp: bearer_token_def)
  have 1: "(\<not> truthy (own_prop body ''firstName'') \<or> \<not> truthy (own_prop body ''lastName'') \<or>
     \<not> truthy (own_prop body ''email'') \<or> \<not> truthy (own_prop body ''password'')) \<longrightarrow>
      status (fst (signup up (Some body))) = 400 \<and> snd (signup up (Some body)) = []"
    by (simp add: signup_def signup_try_def try_catch_def failure_def reply_def Let_def)
  have 2: "(\<not> truthy (own_prop body ''username'') \<or> \<not> truthy (own_prop body ''password'')) \<longrightarrow>
      status (fst (login cfg up (Some body))) = 400 \<and> snd (login cfg up (Some body)) = []"
    by (simp add: login_def login_try_def try_catch_def failure_def reply_def Let_def)
  have 3: "(authHeader = None \<or> (\<exists>h. authHeader = Some h \<and> \<not> startsWith h ''Bearer '')) \<longrightarrow>
      status (fst (getProfile up authHeader)) = 401 \<and> snd (getProfile up authHeader) = []"
    using hdr by (simp add: getProfile_def getProfile_try_def try_catch_def failure_def reply_def)
  have 4: "(authHeader = None \<or> (\<exists>h. authHeader = Some h \<and> \<not> startsWith h ''Bearer '')) \<longrightarrow>
      status (fst (updateProfile up authHeader (Some body))) = 401 \<and>
      snd (updateProfile up authHeader (Some body)) = []"
    using hdr
    by (simp add: updateProfile_def updateProfile_try_def try_catch_def failure_def reply_def)
  have 5: "\<not> truthy (own_prop body ''email'') \<longrightarrow>
      status (fst (resetPassword up (Some body))) = 400 \<and> snd (resetPassword up (Some body)) = []"
    by (simp add: resetPassword_def resetPassword_try_def try_catch_def failure_def reply_def
        Let_def)
  have 6: "\<not> truthy (own_prop body ''token'') \<longrightarrow>
      status (fst (logout cfg up (Some body))) = 400 \<and> snd (logout cfg up (Some body)) = []"
    by (simp add: logout_def logout_try_def try_catch_def failure_def reply_def Let_def)
  from 1 2 3 4 5 6 show ?thesis by blast
qed

text \<open>A request without a body sends nothing upstream either.\<close>

lemma no_body_no_upstream:
  "snd (signup up None) = [] \<and> snd (login cfg up None) = [] \<and>
   snd (resetPassword up None) = [] \<and> snd (logout cfg up None) = []"
  by (simp add: signup_def signup_try_def login_def login_try_def resetPassword_def
      resetPassword_try_def logout_def logout_try_def try_catch_def)

text \<open>
  Claim C5 at a request without a body, where \<^verbatim>\<open>req.body\<close> is undefined and every
  required field is missing. The destructuring of lines 28 and 341 throws inside the
  \<^verbatim>\<open>try\<close>, the validation that answers 400 is not reached, and the
  \<^verbatim>\<open>catch\<close> clause answers 500 for Signup and for Logout: neither 400 nor 401.
  (Login answers 401 and Password Reset 400 there, through their \<^verbatim>\<open>catch\<close> clauses.)
\<close>

theorem signup_logout_without_body:
  "signup up None =
     (\<lparr>status = 500,
       json = [(''success'', JBool False),
               (''message'', JStr ''Error creating user account'')]\<rparr>, []) \<and>
   logout cfg up None =
     (\<lparr>status = 500,
       json = [(''success'', JBool False), (''message'', JStr ''Failed to logout'')]\<rparr>, []) \<and>
   login cfg up None =
     (\<lparr>status = 401,
       json = [(''success'', JBool False),
               (''message'', JStr ''Authentication failed'')]\<rparr>, []) \<and>
   resetPassword up None =
     (\<lparr>status = 400,
       json = [(''success'', JBool False),
               (''message'', JStr ''Failed to send password reset email'')]\<rparr>, [])"
  by (simp add: signup_def signup_try_def login_def login_try_def resetPassword_def
      resetPassword_try_def logout_def logout_try_def try_catch_def okta_catch_def
      opt_member_def failure_def reply_def)

section \<open>Password Reset\<close>

text \<open>
  Claim C6. A Password Reset request whose email is missing or falsy, or that has no
  body at all, is answered 400 and nothing is sent upstream. With an email present,
  the request is sent once the email converts to a string (every string does), and
  when the provider accepts it the reply is 200 with \<^verbatim>\<open>success: true\<close>. When the
  provider rejects it, with any error, and also when the request could not be built,
  the reply is one and the same: 400, \<^verbatim>\<open>success: false\<close> and a fixed message.
\<close>

theorem resetPassword_outcomes:
  "(\<not> truthy (own_prop body ''email'') \<longrightarrow>
      resetPassword up (Some body) =
        (\<lparr>status = 400,
          json = [(''success'', JBool False), (''message'', JStr ''Email is required'')]\<rparr>, [])) \<and>
   (truthy (own_prop body ''email'') \<and> stringifies (own_prop body ''email'') \<and>
    (\<exists>d. up (ResetPassword (own_prop body ''email'') True) = Resolved d) \<longrightarrow>
      resetPassword up (Some body) =
        (\<lparr>status = 200,
          json = [(''success'', JBool True), (''message'', JStr ''Password reset email sent'')]\<rparr>,
         [ResetPassword (own_prop body ''email'') True])) \<and>
   (truthy (own_prop body ''email'') \<and>
    (\<not> stringifies (own_prop body ''email'') \<or>
     (\<exists>r. up (ResetPassword (own_prop body ''email'') True) = Rejected r)) \<longrightarrow>
      fst (resetPassword up (Some body)) =
        \<lparr>status = 400,
         json = [(''success'', JBool False),
                 (''message'', JStr ''Failed to send password reset email'')]\<rparr>) \<and>
   status (fst (resetPassword up None)) = 400 \<and> snd (resetPassword up None) = []"
  by (auto simp: resetPassword_def resetPassword_try_def try_catch_def failure_def success_def
      reply_def Let_def)

theorem resetPassword_outcomes_witness:
  "resetPassword sample_upstream (Some []) =
     (\<lparr>status = 400,
       json = [(''success'', JBool False), (''message'', JStr ''Email is required'')]\<rparr>, []) \<and>
   resetPassword sample_upstream (Some [(''email'', JStr ''ann@example.com'')]) =
     (\<lparr>status = 200,
       json = [(''success'', JBool True), (''message'', JStr ''Password reset email sent'')]\<rparr>,
      [ResetPassword (JStr ''ann@example.com'') True]) \<and>
   fst (resetPassword failing_upstream (Some [(''email'', JStr ''ann@example.com'')])) =
     \<lparr>status = 400,
      json = [(''success'', JBool False),
              (''message'', JStr ''Failed to send password reset email'')]\<rparr>"
proof -
  let ?body = "[(''email'', JStr ''ann@example.com'')]"
  have e: "truthy (own_prop ?body ''email'')" "stringifies (own_prop ?body ''email'')"
    and n: "\<not> truthy (own_prop [] ''email'')"
    by (simp_all add: own_prop_def)
  have ok: "\<exists>d. sample_upstream (ResetPassword (own_prop ?body ''email'') True) = Resolved d"
    by (simp add: sample_upstream_def)
  have ko: "\<exists>r. failing_upstream (ResetPassword (own_prop ?body ''email'') True) = Rejected r"
    by (simp add: failing_upstream_def)
  from resetPassword_outcomes [of "[]" sample_upstream] n
    resetPassword_outcomes [of ?body sample_upstream] e ok
    resetPassword_outcomes [of ?body failing_upstream] ko
  show ?thesis by (simp add: own_prop_def)
qed

section \<open>Signup\<close>

text \<open>
  Claim C7. For a Signup request whose four required fields are all truthy: when the
  creation request succeeds with a user record (response data that is not null or
  undefined), the reply is 201 with \<^verbatim>\<open>success: true\<close> and \<^verbatim>\<open>userId\<close> equal to the
  \<^verbatim>\<open>id\<close> of that record; when it is rejected with a body that has the validation
  shape, which the handler recognises by a truthy \<^verbatim>\<open>errorCauses\<close> member, the reply is
  400 with that body's \<^verbatim>\<open>errorSummary\<close> and \<^verbatim>\<open>errorCauses\<close>; every other rejection
  gives the generic 500.
\<close>

theorem signup_outcomes:
  assumes "truthy (own_prop body ''firstName'')" and "truthy (own_prop body ''lastName'')"
    and "truthy (own_prop body ''email'')" and "truthy (own_prop body ''password'')"
    and "call = CreateUser True (newUser (own_prop body ''firstName'') (own_prop body ''lastName'')
                  (own_prop body ''email'') (own_prop body ''password''))"
  shows "(up call = Resolved d \<and> \<not> nullish d \<longrightarrow>
            fst (signup up (Some body)) =
              \<lparr>status = 201,
               json = [(''success'', JBool True),
                       (''message'', JStr ''User created successfully''),
                       (''userId'', member d ''id'')]\<rparr>) \<and>
         (up call = Rejected (Some e) \<and> \<not> nullish e \<and> truthy (member e ''errorCauses'') \<longrightarrow>
            fst (signup up (Some body)) =
              \<lparr>status = 400,
               json = [(''success'', JBool False),
                       (''message'', member e ''errorSummary''),
                       (''errors'', member e ''errorCauses'')]\<rparr>) \<and>
         (up call = Rejected r \<and>
          (r = None \<or> (\<exists>e. r = Some e \<and> (nullish e \<or> \<not> truthy (member e ''errorCauses'')))) \<longrightarrow>
            fst (signup up (Some body)) =
              \<lparr>status = 500,
               json = [(''success'', JBool False),
                       (''message'', JStr ''Error creating user account'')]\<rparr>)"
  using assms
  by (cases r)
     (auto simp: signup_def signup_try_def try_catch_def okta_catch_def opt_member_def
      failure_def reply_def Let_def)

theorem signup_outcomes_witness:
  "fst (signup sample_upstream
          (Some [(''firstName'', JStr ''Ann''), (''lastName'', JStr ''Lee''),
           (''email'', JStr ''ann@example.com''), (''password'', JStr ''pw'')])) =
     \<lparr>status = 201,
      json = [(''success'', JBool True),
              (''message'', JStr ''User created successfully''),
              (''userId'', JStr ''00u1'')]\<rparr> \<and>
   fst (signup failing_upstream
          (Some [(''firstName'', JStr ''Ann''), (''lastName'', JStr ''Lee''),
           (''email'', JStr ''ann@example.com''), (''password'', JStr ''pw'')])) =
     \<lparr>status = 400,
      json = [(''success'', JBool False),
              (''message'', JStr ''Api validation failed: login''),
              (''errors'', JArr [JObj [(''errorSummary'', JStr ''login: already exists'')]])]\<rparr> \<and>
   fst (signup (\<lambda>call. Rejected None)
          (Some [(''firstName'', JStr ''Ann''), (''lastName'', JStr ''Lee''),
           (''email'', JStr ''ann@example.com''), (''password'', JStr ''pw'')])) =
     \<lparr>status = 500,
      json = [(''success'', JBool False),
              (''message'', JStr ''Error creating user account'')]\<rparr>"
proof -
  let ?body = "[(''firstName'', JStr ''Ann''), (''lastName'', JStr ''Lee''),
                (''email'', JStr ''ann@example.com''), (''password'', JStr ''pw'')]"
  let ?call = "CreateUser True (newUser (own_prop ?body ''firstName'')
                 (own_prop ?body ''lastName'') (own_prop ?body ''email'')
                 (own_prop ?body ''password''))"
  have t: "truthy (own_prop ?body ''firstName'')" "truthy (own_prop ?body ''lastName'')"
    "truthy (own_prop ?body ''email'')" "truthy (own_prop ?body ''password'')"
    by (simp_all add: own_prop_def)
  have ok: "sample_upstream ?call = Resolved (JObj [(''id'', JStr ''00u1'')])"
    by (simp add: sample_upstream_def)
  have ko: "failing_upstream ?call = Rejected (Some okta_error)"
    by (simp add: failing_upstream_def)
  have shape: "\<not> nullish okta_error" "truthy (member okta_error ''errorCauses'')"
    by (simp_all add: okta_error_def own_prop_def)
  from signup_outcomes [OF t refl, of sample_upstream "JObj [(''id'', JStr ''00u1'')]"] ok
  have 1: "fst (signup sample_upstream (Some ?body)) =
      \<lparr>status = 201,
       json = [(''success'', JBool True),
               (''message'', JStr ''User created successfully''),
               (''userId'', JStr ''00u1'')]\<rparr>"
    by (simp add: own_prop_def)
  from signup_outcomes [OF t refl, of failing_upstream _ okta_error] ko shape
  have 2: "fst (signup failing_upstream (Some ?body)) =
      \<lparr>status = 400,
       json = [(''success'', JBool False),
               (''message'', member okta_error ''errorSummary''),
               (''errors'', member okta_error ''errorCauses'')]\<rparr>"
    by simp
  from signup_outcomes [OF t refl, of "\<lambda>call. Rejected None" _ _ None]
  have 3: "fst (signup (\<lambda>call. Rejected None) (Some ?body)) =
      \<lparr>status = 500,
       json = [(''success'', JBool False),
               (''message'', JStr ''Error creating user account'')]\<rparr>"
    by simp
  from 1 2 3 show ?thesis
    by (simp add: okta_error_def own_prop_def)
qed

text \<open>
  Claim C10. For a Signup request that passes validation, the handler sends exactly
  one request, the user creation with \<^verbatim>\<open>activate=true\<close>, and the profile it carries
  has both \<^verbatim>\<open>login\<close> and \<^verbatim>\<open>email\<close> equal to the caller's email, whatever else the
  body holds.
\<close>

theorem signup_login_is_email:
  assumes "truthy (own_prop body ''firstName'')" and "truthy (own_prop body ''lastName'')"
    and "truthy (own_prop body ''email'')" and "truthy (own_prop body ''password'')"
  shows "\<exists>user profile.
           snd (signup up (Some body)) = [CreateUser True user] \<and>
           member user ''profile'' = JObj profile \<and>
           own_prop profile ''login'' = own_prop body ''email'' \<and>
           own_prop profile ''email'' = own_prop body ''email''"
  using assms
  by (auto simp: signup_def signup_try_def try_catch_def newUser_def own_prop_def Let_def
      split: outcome.splits)

theorem signup_login_is_email_witness:
  "truthy (JStr ''Ann'') \<and> truthy (JStr ''Lee'') \<and> truthy (JStr ''ann@example.com'') \<and>
   truthy (JStr ''pw'') \<and>
   (\<exists>user profile.
      snd (signup sample_upstream
             (Some [(''firstName'', JStr ''Ann''), (''lastName'', JStr ''Lee''),
              (''email'', JStr ''ann@example.com''), (''password'', JStr ''pw''),
              (''login'', JStr ''root'')])) = [CreateUser True user] \<and>
      member user ''profile'' = JObj profile \<and>
      own_prop profile ''login'' = JStr ''ann@example.com'' \<and>
      own_prop profile ''email'' = JStr ''ann@example.com'')"
proof -
  let ?body = "[(''firstName'', JStr ''Ann''), (''lastName'', JStr ''Lee''),
                (''email'', JStr ''ann@example.com''), (''password'', JStr ''pw''),
                (''login'', JStr ''root'')]"
  have t: "truthy (own_prop ?body ''firstName'')" "truthy (own_prop ?body ''lastName'')"
    "truthy (own_prop ?body ''email'')" "truthy (own_prop ?body ''password'')"
    by (simp_all add: own_prop_def)
  have e: "own_prop ?body ''email'' = JStr ''ann@example.com''"
    by (simp add: own_prop_def)
  from signup_login_is_email [OF t, of sample_upstream] show ?thesis
    unfolding e by simp
qed

section \<open>The field map\<close>

text \<open>
  Claim C8, as stated: the field map has exactly 29 keys, and a body key that is not
  one of them never reaches the patch object. The map has thirty keys, all different;
  and \<^verbatim>\<open>login\<close>, which is not one of them, is copied into the patch object.
\<close>

theorem allowedFields_count_counterexample:
  "distinct (map fst allowedFields) \<and> length (map fst allowedFields) \<noteq> 29 \<and>
   ''login'' \<notin> set (map fst allowedFields) \<and>
   profileUpdate [(''firstName'', JStr ''Ann''), (''login'', JStr ''ann2'')] =
     JObj [(''profile'', JObj [(''firstName'', JStr ''Ann''), (''login'', JStr ''ann2'')])]"
  by (simp add: profileUpdate_def with_login_def own_prop_def field_map_defs)

text \<open>
  Claim C8, amended. The field map has exactly 30 keys. A body key other than
  \<^verbatim>\<open>login\<close> that is neither one of them nor a name that \<^verbatim>\<open>Object.prototype\<close> defines
  is dropped without a trace: a body with and without that entry gives the same patch
  object, the same upstream requests and the same reply.
\<close>

theorem allowedFields_thirty_and_drop:
  "length allowedFields = 30 \<and> distinct (map fst allowedFields) \<and>
   (key \<notin> fst ` set allowedFields \<and> key \<notin> fst ` set object_prototype \<and> key \<noteq> ''login'' \<longrightarrow>
      profileUpdate (filter (\<lambda>entry. fst entry \<noteq> key) body) = profileUpdate body \<and>
      updateProfile up authHeader (Some (filter (\<lambda>entry. fst entry \<noteq> key) body))
        = updateProfile up authHeader (Some body))"
proof -
  have n: "length allowedFields = 30 \<and> distinct (map fst allowedFields)"
    by (simp add: allowedFields_def)
  have d: "profileUpdate (filter (\<lambda>entry. fst entry \<noteq> key) body) = profileUpdate body \<and>
      updateProfile up authHeader (Some (filter (\<lambda>entry. fst entry \<noteq> key) body))
        = updateProfile up authHeader (Some body)"
    if "key \<notin> fst ` set allowedFields" "key \<notin> fst ` set object_prototype" "key \<noteq> ''login''"
  proof -
    from that have k: "allowedFields_key key = None"
      by (simp add: allowedFields_key_None)
    from that have l: "own_prop (filter (\<lambda>entry. fst entry \<noteq> key) body) ''login''
        = own_prop body ''login''"
      by (simp add: own_prop_filter)
    have m: "map_fields (filter (\<lambda>entry. fst entry \<noteq> key) body) = map_fields body"
      by (rule map_fields_filter [OF k])
    have p: "profileUpdate (filter (\<lambda>entry. fst entry \<noteq> key) body) = profileUpdate body"
      by (simp add: profileUpdate_def with_login_def m l)
    have "updateProfile up authHeader (Some (filter (\<lambda>entry. fst entry \<noteq> key) body))
        = updateProfile up authHeader (Some body)"
      unfolding updateProfile_def updateProfile_try_def option.case p m ..
    with p show ?thesis by simp
  qed
  from n d show ?thesis by blast
qed

theorem allowedFields_thirty_and_drop_witness:
  "''shoeSize'' \<notin> fst ` set allowedFields \<and> ''shoeSize'' \<notin> fst ` set object_prototype \<and>
   profileUpdate [(''firstName'', JStr ''Ann''), (''shoeSize'', JStr ''38'')]
     = profileUpdate [(''firstName'', JStr ''Ann'')] \<and>
   updateProfile sample_upstream (Some ''Bearer abc'')
       (Some [(''firstName'', JStr ''Ann''), (''shoeSize'', JStr ''38'')])
     = updateProfile sample_upstream (Some ''Bearer abc'') (Some [(''firstName'', JStr ''Ann'')])"
proof -
  have k: "''shoeSize'' \<notin> fst ` set allowedFields" "''shoeSize'' \<notin> fst ` set object_prototype"
    "''shoeSize'' \<noteq> ''login''"
    by (simp_all add: allowedFields_def object_prototype_def)
  from allowedFields_thirty_and_drop
    [of "''shoeSize''" "[(''firstName'', JStr ''Ann''), (''shoeSize'', JStr ''38'')]"
      sample_upstream "Some ''Bearer abc''"] k
  show ?thesis by simp
qed

text \<open>
  Claim C3 at the body \<^verbatim>\<open>{"constructor": "x"}\<close>. The key is not in the field map, yet
  \<^verbatim>\<open>allowedFields["constructor"]\<close> is the inherited \<^verbatim>\<open>Object\<close> function, which is
  truthy: the entry is copied under the text of that function, the patch object is
  not empty, and the update is sent with it.
\<close>

theorem updateProfile_inherited_key:
  "updateProfile sample_upstream (Some ''Bearer abc'') (Some [(''constructor'', JStr ''x'')]) =
     (\<lparr>status = 200,
       json = [(''success'', JBool True), (''message'', JStr ''Profile updated successfully'')]\<rparr>,
      [UserInfo (JStr ''abc''),
       UpdateUser (JStr ''00u1'')
         (JObj [(''profile'', JObj [(''function Object() { [native code] }'', JStr ''x'')])])])"
  by (simp add: updateProfile_def updateProfile_try_def try_catch_def bearer_token_def
      startsWith_def sample_upstream_def profileUpdate_def with_login_def own_prop_def
      success_def reply_def field_map_defs)

text \<open>
  Claim C9 at the same body. The loop maps it to a patch object with one member, and
  maps that patch object to the empty one: applying it twice is not applying it once.
\<close>

theorem map_fields_not_idempotent:
  "map_fields [(''constructor'', JStr ''x'')]
     = [(''function Object() { [native code] }'', JStr ''x'')] \<and>
   map_fields (map_fields [(''constructor'', JStr ''x'')]) = [] \<and>
   map_fields (map_fields [(''constructor'', JStr ''x'')])
     \<noteq> map_fields [(''constructor'', JStr ''x'')]"
  by (simp add: field_map_defs)

end
